theory Spec2Isabelle
  imports Main
begin

section \<open>The analysis panel of NeuroMorphoVis\<close>

text \<open>
  A shallow embedding of \<^verbatim>\<open>neuromorphovis/interface/ui/analysis_panel.py\<close>: the panel's
  \<^verbatim>\<open>draw\<close> routine and the \<^verbatim>\<open>execute\<close> handlers of the two operators
  \<^verbatim>\<open>analyze.morphology\<close> and \<^verbatim>\<open>export.analysis_results\<close>.

  The file is glue code. Everything it calls in \<^verbatim>\<open>nmv.interface\<close>, \<^verbatim>\<open>nmv.file.ops\<close>,
  \<^verbatim>\<open>nmv.logger\<close> and \<^verbatim>\<open>nmv.consts\<close> is defined elsewhere, so those routines and
  constants are parameters of the model (the record \<open>collaborators\<close>). A collaborator is any
  function that, given its arguments and the session, either returns a value or raises, and
  leaves a session behind in both cases. The handlers themselves are modelled statement by
  statement; they record every call they make and every message they report in a list of
  events, in the order of execution.
\<close>

subsection \<open>Values of the host and of the add-on\<close>

type_synonym addr = nat

text \<open>An exception raised by a collaborator; the handlers raise none themselves.\<close>

datatype exn = Exception string

datatype 'a result = Returned 'a | Raised exn

text \<open>Severities of \<^verbatim>\<open>Operator.report\<close> and the status values an operator may return.\<close>

datatype severity = INFO | WARNING | ERROR

datatype status = RUNNING_MODAL | CANCELLED | FINISHED | PASS_THROUGH

text \<open>
  The configuration object \<^verbatim>\<open>nmv.interface.ui_options\<close> is a mutable object that holds a
  reference to a second mutable object, \<^verbatim>\<open>ui_options.io\<close>, with the two path fields this
  file reads. Both kinds of object live in a store, so that a copy and its original can be
  told apart. A path field holds a string or Python's \<^verbatim>\<open>None\<close>.
\<close>

record io_options =
  output_directory :: "string option"
  analysis_directory :: "string option"

record options_object =
  io :: addr

text \<open>
  The session: the two scene properties this file uses (\<^verbatim>\<open>context.scene.MorphologyAnalyzed\<close>
  and \<^verbatim>\<open>context.scene.OutputDirectory\<close>), the module globals \<^verbatim>\<open>nmv.interface.ui_morphology\<close>
  and \<^verbatim>\<open>nmv.interface.ui_options\<close>, the object store with its allocation frontier
  (addresses below \<open>next_addr\<close> are in use), and \<open>outside\<close>: everything else a collaborator
  can see or change, the file system included.
\<close>

record ('m, 'w) session =
  MorphologyAnalyzed :: bool
  OutputDirectory :: string
  ui_morphology :: "'m option"
  ui_options :: addr
  options_heap :: "addr \<Rightarrow> options_object"
  io_heap :: "addr \<Rightarrow> io_options"
  next_addr :: addr
  outside :: 'w

text \<open>What a handler does that can be observed from outside, in order.\<close>

datatype 'm event =
    Report "severity set" string
  | Call_load_morphology
  | Call_sketch_morphology_skeleton_guide "'m option" addr
  | Call_analyze_morphology "'m option"
  | Call_add_analysis_groups_to_panel "'m option"
  | Call_log string
  | Call_path_exists "string option"
  | Call_clean_and_create_directory "string option"
  | Call_export_analysis_results "'m option" "string option"

text \<open>The layout a panel draws into: its widgets and its \<^verbatim>\<open>enabled\<close> attribute.\<close>

datatype ui_item =
    Column bool "ui_item list"
  | Row "ui_item list"
  | Operator string string
  | Widget string

record layout =
  items :: "ui_item list"
  enabled :: bool

subsection \<open>The collaborators\<close>

text \<open>
  The routines and constants of the add-on that this file uses and does not define.
  \<^verbatim>\<open>load_morphology\<close> returns \<^verbatim>\<open>None\<close> or something else; \<^verbatim>\<open>analyze_morphology\<close> returns the
  boolean stored in the flag; the renderer \<^verbatim>\<open>add_analysis_groups_to_panel\<close> also receives the
  layout and may change it.
\<close>

record ('m, 'w) collaborators =
  load_morphology :: "('m, 'w) session \<Rightarrow> 'm option result \<times> ('m, 'w) session"
  sketch_morphology_skeleton_guide ::
    "'m option \<Rightarrow> addr \<Rightarrow> ('m, 'w) session \<Rightarrow> unit result \<times> ('m, 'w) session"
  analyze_morphology :: "'m option \<Rightarrow> ('m, 'w) session \<Rightarrow> bool result \<times> ('m, 'w) session"
  add_analysis_groups_to_panel ::
    "'m option \<Rightarrow> layout \<Rightarrow> ('m, 'w) session \<Rightarrow> unit result \<times> layout \<times> ('m, 'w) session"
  export_analysis_results ::
    "'m option \<Rightarrow> string option \<Rightarrow> ('m, 'w) session \<Rightarrow> unit result \<times> ('m, 'w) session"
  path_exists :: "string option \<Rightarrow> ('m, 'w) session \<Rightarrow> bool result \<times> ('m, 'w) session"
  clean_and_create_directory ::
    "string option \<Rightarrow> ('m, 'w) session \<Rightarrow> unit result \<times> ('m, 'w) session"
  log :: "string \<Rightarrow> ('m, 'w) session \<Rightarrow> unit result \<times> ('m, 'w) session"
  PATH_NOT_SET :: string
  INVALID_OUTPUT_PATH :: string

subsection \<open>Sequencing statements\<close>

text \<open>
  A statement runs in a session and yields its outcome, the session it leaves and the events
  it emitted. \<open>bind_act\<close> is Python's sequencing: an exception of the first statement skips
  the rest and reaches the caller, with the effects so far in place.
\<close>

type_synonym ('a, 'm, 'w) act =
  "('m, 'w) session \<Rightarrow> 'a result \<times> ('m, 'w) session \<times> 'm event list"

definition return_act :: "'a \<Rightarrow> ('a, 'm, 'w) act" where
  "return_act x s = (Returned x, s, [])"

definition bind_act :: "('a, 'm, 'w) act \<Rightarrow> ('a \<Rightarrow> ('b, 'm, 'w) act) \<Rightarrow> ('b, 'm, 'w) act" where
  "bind_act f g s =
     (case f s of
        (Raised e, s1, evs1) \<Rightarrow> (Raised e, s1, evs1)
      | (Returned x, s1, evs1) \<Rightarrow>
          (case g x s1 of (r, s2, evs2) \<Rightarrow> (r, s2, evs1 @ evs2)))"

definition read_act :: "(('m, 'w) session \<Rightarrow> 'a) \<Rightarrow> ('a, 'm, 'w) act" where
  "read_act f s = (Returned (f s), s, [])"

definition write_act :: "(('m, 'w) session \<Rightarrow> ('m, 'w) session) \<Rightarrow> (unit, 'm, 'w) act" where
  "write_act f s = (Returned (), f s, [])"

definition call_act ::
  "'m event \<Rightarrow> (('m, 'w) session \<Rightarrow> 'a result \<times> ('m, 'w) session) \<Rightarrow> ('a, 'm, 'w) act" where
  "call_act ev f s = (case f s of (r, s1) \<Rightarrow> (r, s1, [ev]))"

definition report :: "severity set \<Rightarrow> string \<Rightarrow> (unit, 'm, 'w) act" where
  "report sev msg s = (Returned (), s, [Report sev msg])"

text \<open>The three components of what a handler yields.\<close>

definition outcome_of :: "'a result \<times> 's \<times> 'e list \<Rightarrow> 'a result" where
  "outcome_of x = fst x"

definition session_of :: "'a result \<times> 's \<times> 'e list \<Rightarrow> 's" where
  "session_of x = fst (snd x)"

definition events_of :: "'a result \<times> 's \<times> 'e list \<Rightarrow> 'e list" where
  "events_of x = snd (snd x)"

subsection \<open>Reading the configuration, and \<^verbatim>\<open>copy.deepcopy\<close>\<close>

text \<open>\<^verbatim>\<open>nmv.interface.ui_options.io\<close>: the object behind the global's \<^verbatim>\<open>io\<close> attribute.\<close>

definition ui_options_io :: "('m, 'w) session \<Rightarrow> io_options" where
  "ui_options_io s = io_heap s (io (options_heap s (ui_options s)))"

text \<open>
  \<^verbatim>\<open>copy.deepcopy(nmv.interface.ui_options)\<close> builds a new configuration object whose
  \<^verbatim>\<open>io\<close> attribute is a new object too, with the field values of the original. The new
  objects take the next two free addresses; the result is the address of the new
  configuration object.
\<close>

definition deepcopy_ui_options :: "(addr, 'm, 'w) act" where
  "deepcopy_ui_options s =
     (let original = options_heap s (ui_options s);
          io_copy = next_addr s;
          options_copy = Suc (next_addr s)
      in (Returned options_copy,
          s\<lparr>io_heap := (io_heap s)(io_copy := io_heap s (io original)),
            options_heap := (options_heap s)(options_copy := original\<lparr>io := io_copy\<rparr>),
            next_addr := Suc (Suc (next_addr s))\<rparr>,
          []))"

subsection \<open>\<^verbatim>\<open>AnalysisPanel.draw\<close>\<close>

text \<open>
  Appending a widget to the layout: \<^verbatim>\<open>layout.column(align=True).operator(...)\<close> and
  \<^verbatim>\<open>layout.row().operator(...)\<close>.
\<close>

definition add_item :: "ui_item \<Rightarrow> layout \<Rightarrow> layout" where
  "add_item w l = l\<lparr>items := items l @ [w]\<rparr>"

text \<open>
  The renderer is called with the layout as an argument, so the layout is threaded beside
  the session. An exception of the renderer ends \<^verbatim>\<open>draw\<close> at once.
\<close>

definition AnalysisPanel_draw ::
  "('m, 'w) collaborators \<Rightarrow> layout \<Rightarrow> ('m, 'w) session
     \<Rightarrow> unit result \<times> layout \<times> ('m, 'w) session \<times> 'm event list" where
  "AnalysisPanel_draw env layout0 s =
     (let layout1 = add_item (Column True [Operator ''analyze.morphology'' ''MESH_DATA'']) layout0;
          groups =
            (if MorphologyAnalyzed s then
               (case add_analysis_groups_to_panel env (ui_morphology s) layout1 s of
                  (Raised e, layout2, s2) \<Rightarrow>
                    (Raised e, layout2, s2, [Call_add_analysis_groups_to_panel (ui_morphology s)])
                | (Returned u, layout2, s2) \<Rightarrow>
                    (Returned (),
                     add_item (Row [Operator ''export.analysis_results'' ''MESH_DATA'']) layout2,
                     s2, [Call_add_analysis_groups_to_panel (ui_morphology s)]))
             else (Returned (), layout1, s, []))
      in (case groups of
            (Raised e, layout3, s3, evs) \<Rightarrow> (Raised e, layout3, s3, evs)
          | (Returned u, layout3, s3, evs) \<Rightarrow>
              (if ui_morphology s3 = None
               then (Returned (), layout3\<lparr>enabled := False\<rparr>, s3, evs)
               else (Returned (), layout3, s3, evs))))"

subsection \<open>\<^verbatim>\<open>AnalyzeMorphology.execute\<close>\<close>

definition AnalyzeMorphology_execute :: "('m, 'w) collaborators \<Rightarrow> (status set, 'm, 'w) act" where
  "AnalyzeMorphology_execute env =
     bind_act (call_act Call_load_morphology (load_morphology env)) (\<lambda>loading_result.
     if loading_result = None then
       bind_act (report {ERROR} ''Please select a morphology file'') (\<lambda>_.
       return_act {FINISHED})
     else
       bind_act (read_act ui_morphology) (\<lambda>morphology.
       bind_act deepcopy_ui_options (\<lambda>options.
       bind_act (call_act (Call_sketch_morphology_skeleton_guide morphology options)
                   (sketch_morphology_skeleton_guide env morphology options)) (\<lambda>_.
       bind_act (read_act ui_morphology) (\<lambda>morphology'.
       bind_act (call_act (Call_analyze_morphology morphology')
                   (analyze_morphology env morphology')) (\<lambda>analyzed.
       bind_act (write_act (\<lambda>s. s\<lparr>MorphologyAnalyzed := analyzed\<rparr>)) (\<lambda>_.
       bind_act (read_act MorphologyAnalyzed) (\<lambda>flag.
       bind_act (if \<not> flag
                 then report {WARNING} ''Corrupted morphology and cannot be analysed!''
                 else return_act ()) (\<lambda>_.
       return_act {FINISHED})))))))))"

subsection \<open>\<^verbatim>\<open>ExportAnalysisResults.execute\<close>\<close>

definition ExportAnalysisResults_execute ::
  "('m, 'w) collaborators \<Rightarrow> (status set, 'm, 'w) act" where
  "ExportAnalysisResults_execute env =
     bind_act (read_act (\<lambda>s. output_directory (ui_options_io s))) (\<lambda>out_dir.
     if out_dir = None then
       bind_act (report {ERROR} (PATH_NOT_SET env)) (\<lambda>_.
       return_act {FINISHED})
     else
       bind_act (read_act OutputDirectory) (\<lambda>scene_dir.
       bind_act (call_act (Call_log scene_dir) (log env scene_dir)) (\<lambda>_.
       bind_act (read_act OutputDirectory) (\<lambda>scene_dir'.
       bind_act (call_act (Call_path_exists (Some scene_dir'))
                   (path_exists env (Some scene_dir'))) (\<lambda>output_exists.
       if \<not> output_exists then
         bind_act (report {ERROR} (INVALID_OUTPUT_PATH env)) (\<lambda>_.
         return_act {FINISHED})
       else
         bind_act (read_act (\<lambda>s. analysis_directory (ui_options_io s))) (\<lambda>dir1.
         bind_act (call_act (Call_path_exists dir1) (path_exists env dir1)) (\<lambda>analysis_exists.
         bind_act (if \<not> analysis_exists then
                     bind_act (read_act (\<lambda>s. analysis_directory (ui_options_io s))) (\<lambda>dir2.
                     call_act (Call_clean_and_create_directory dir2)
                       (clean_and_create_directory env dir2))
                   else return_act ()) (\<lambda>_.
         bind_act (read_act ui_morphology) (\<lambda>morphology.
         bind_act (read_act (\<lambda>s. analysis_directory (ui_options_io s))) (\<lambda>dir3.
         bind_act (call_act (Call_export_analysis_results morphology dir3)
                     (export_analysis_results env morphology dir3)) (\<lambda>_.
         return_act {FINISHED})))))))))))"

subsection \<open>Reading a list of events\<close>

text \<open>The messages reported, in order, and the tests that pick out one kind of call.\<close>

fun reports_of :: "'m event list \<Rightarrow> (severity set \<times> string) list" where
  "reports_of [] = []"
| "reports_of (Report sev msg # evs) = (sev, msg) # reports_of evs"
| "reports_of (_ # evs) = reports_of evs"

fun is_sketch_call :: "'m event \<Rightarrow> bool" where
  "is_sketch_call (Call_sketch_morphology_skeleton_guide m a) = True"
| "is_sketch_call _ = False"

fun is_analyze_call :: "'m event \<Rightarrow> bool" where
  "is_analyze_call (Call_analyze_morphology m) = True"
| "is_analyze_call _ = False"

fun is_create_call :: "'m event \<Rightarrow> bool" where
  "is_create_call (Call_clean_and_create_directory p) = True"
| "is_create_call _ = False"

fun is_export_call :: "'m event \<Rightarrow> bool" where
  "is_export_call (Call_export_analysis_results m p) = True"
| "is_export_call _ = False"

text \<open>The components of what \<^verbatim>\<open>draw\<close> yields.\<close>

definition drawn_outcome :: "'a \<times> 'l \<times> 's \<times> 'e \<Rightarrow> 'a" where
  "drawn_outcome x = fst x"

definition drawn_layout :: "'a \<times> 'l \<times> 's \<times> 'e \<Rightarrow> 'l" where
  "drawn_layout x = fst (snd x)"

definition drawn_events :: "'a \<times> 'l \<times> 's \<times> 'e \<Rightarrow> 'e" where
  "drawn_events x = snd (snd (snd x))"

subsection \<open>What is assumed of a collaborator\<close>

text \<open>
  The configuration object and its \<^verbatim>\<open>io\<close> object exist: their addresses are below the
  allocation frontier.
\<close>

definition options_allocated :: "('m, 'w) session \<Rightarrow> bool" where
  "options_allocated s \<longleftrightarrow>
     ui_options s < next_addr s \<and> io (options_heap s (ui_options s)) < next_addr s"

text \<open>
  A routine called with the configuration object at address \<open>a\<close> in session \<open>s\<close> writes
  only through that argument: of the objects that existed at the call, only the one at \<open>a\<close>
  and its \<^verbatim>\<open>io\<close> object may differ in \<open>s'\<close>, and the global \<^verbatim>\<open>ui_options\<close> still names the
  same object. What the routine does to those two objects is not restricted.
\<close>

definition writes_only_argument :: "addr \<Rightarrow> ('m, 'w) session \<Rightarrow> ('m, 'w) session \<Rightarrow> bool" where
  "writes_only_argument a s s' \<longleftrightarrow>
     ui_options s' = ui_options s
     \<and> (\<forall>b < next_addr s. b \<noteq> a \<longrightarrow> options_heap s' b = options_heap s b)
     \<and> (\<forall>b < next_addr s. b \<noteq> io (options_heap s a) \<longrightarrow> io_heap s' b = io_heap s b)"

text \<open>The exception \<open>e\<close> is one that a collaborator of the two handlers can raise.\<close>

definition raised_by_collaborator :: "('m, 'w) collaborators \<Rightarrow> exn \<Rightarrow> bool" where
  "raised_by_collaborator env e \<longleftrightarrow>
     (\<exists>s. fst (load_morphology env s) = Raised e)
     \<or> (\<exists>m a s. fst (sketch_morphology_skeleton_guide env m a s) = Raised e)
     \<or> (\<exists>m s. fst (analyze_morphology env m s) = Raised e)
     \<or> (\<exists>m p s. fst (export_analysis_results env m p s) = Raised e)
     \<or> (\<exists>p s. fst (path_exists env p s) = Raised e)
     \<or> (\<exists>p s. fst (clean_and_create_directory env p s) = Raised e)
     \<or> (\<exists>x s. fst (log env x s) = Raised e)"

text \<open>
  A routine \<open>g\<close> leaves the component \<open>f\<close> of the session as it found it; and the four
  collaborators of the export handler all do.
\<close>

definition leaves :: "('s \<Rightarrow> 'a) \<Rightarrow> ('s \<Rightarrow> 'b \<times> 's) \<Rightarrow> bool" where
  "leaves f g \<longleftrightarrow> (\<forall>s. f (snd (g s)) = f s)"

definition export_collaborators_leave ::
  "(('m, 'w) session \<Rightarrow> 'a) \<Rightarrow> ('m, 'w) collaborators \<Rightarrow> bool" where
  "export_collaborators_leave f env \<longleftrightarrow>
     (\<forall>x. leaves f (log env x)) \<and> (\<forall>p. leaves f (path_exists env p))
     \<and> (\<forall>p. leaves f (clean_and_create_directory env p))
     \<and> (\<forall>m p. leaves f (export_analysis_results env m p))"

text \<open>
  A routine \<open>g\<close> neither reads nor writes the flag \<^verbatim>\<open>MorphologyAnalyzed\<close>: run with another
  value of the flag it returns the same and leaves the same session, but for that value.
\<close>

definition flag_blind :: "(('m, 'w) session \<Rightarrow> 'b \<times> ('m, 'w) session) \<Rightarrow> bool" where
  "flag_blind g \<longleftrightarrow>
     (\<forall>s b. g (s\<lparr>MorphologyAnalyzed := b\<rparr>) =
        (fst (g s), (snd (g s))\<lparr>MorphologyAnalyzed := b\<rparr>))"

definition export_collaborators_flag_blind :: "('m, 'w) collaborators \<Rightarrow> bool" where
  "export_collaborators_flag_blind env \<longleftrightarrow>
     (\<forall>x. flag_blind (log env x)) \<and> (\<forall>p. flag_blind (path_exists env p))
     \<and> (\<forall>p. flag_blind (clean_and_create_directory env p))
     \<and> (\<forall>m p. flag_blind (export_analysis_results env m p))"

subsection \<open>An example session\<close>

text \<open>
  Concrete collaborators, to run the handlers on: morphologies are numbers, and the outside
  world is the set of directories that exist. The loader loads morphology 1; the sketch
  routine overwrites both path fields of the configuration it is given; the analysis
  succeeds on any morphology; the renderer adds one widget; \<^verbatim>\<open>path_exists\<close> looks the path
  up and \<^verbatim>\<open>clean_and_create_directory\<close> adds it. The two messages stand for the constants
  of \<^verbatim>\<open>nmv.consts.Messages\<close>.
\<close>

definition example_collaborators :: "(nat, string set) collaborators" where
  "example_collaborators =
     \<lparr>load_morphology = (\<lambda>s. (Returned (Some 1), s\<lparr>ui_morphology := Some 1\<rparr>)),
      sketch_morphology_skeleton_guide =
        (\<lambda>m a s. (Returned (),
           s\<lparr>io_heap := (io_heap s)(io (options_heap s a) :=
                \<lparr>output_directory = None, analysis_directory = None\<rparr>)\<rparr>)),
      analyze_morphology = (\<lambda>m s. (Returned (m \<noteq> None), s)),
      add_analysis_groups_to_panel = (\<lambda>m l s. (Returned (), add_item (Widget ''Morphology'') l, s)),
      export_analysis_results = (\<lambda>m p s. (Returned (), s)),
      path_exists =
        (\<lambda>p s. (Returned (case p of None \<Rightarrow> False | Some d \<Rightarrow> d \<in> outside s), s)),
      clean_and_create_directory =
        (\<lambda>p s. (Returned (),
           case p of None \<Rightarrow> s | Some d \<Rightarrow> s\<lparr>outside := insert d (outside s)\<rparr>)),
      log = (\<lambda>x s. (Returned (), s)),
      PATH_NOT_SET = ''Output directory is not set'',
      INVALID_OUTPUT_PATH = ''Output directory does not exist''\<rparr>"

text \<open>
  No morphology loaded, nothing analysed; the configuration object is at address 0 and its
  \<^verbatim>\<open>io\<close> object at address 1; the directory \<^verbatim>\<open>/out\<close> exists and \<^verbatim>\<open>/out/analysis\<close> does not.
\<close>

definition example_session :: "(nat, string set) session" where
  "example_session =
     \<lparr>MorphologyAnalyzed = False,
      OutputDirectory = ''/out'',
      ui_morphology = None,
      ui_options = 0,
      options_heap = (\<lambda>a. \<lparr>io = 1\<rparr>),
      io_heap = (\<lambda>a. \<lparr>output_directory = Some ''/out'',
                       analysis_directory = Some ''/out/analysis''\<rparr>),
      next_addr = 2,
      outside = {''/out''}\<rparr>"

text \<open>The same session with \<^verbatim>\<open>ui_options.io.output_directory\<close> not set.\<close>

definition unset_session :: "(nat, string set) session" where
  "unset_session =
     example_session\<lparr>io_heap := (\<lambda>a. \<lparr>output_directory = None,
                                        analysis_directory = Some ''/out/analysis''\<rparr>)\<rparr>"

definition empty_layout :: layout where
  "empty_layout = \<lparr>items = [], enabled = True\<rparr>"


section \<open>Properties\<close>

subsection \<open>Unfolding and shared facts\<close>

lemmas act_defs = bind_act_def return_act_def read_act_def write_act_def call_act_def report_def
  outcome_of_def session_of_def events_of_def

lemmas draw_defs = AnalysisPanel_draw_def drawn_outcome_def drawn_layout_def drawn_events_def
  add_item_def Let_def

lemmas example_defs = example_collaborators_def example_session_def

text \<open>The copy made by \<^verbatim>\<open>copy.deepcopy\<close> shares no object with its original.\<close>

lemma deepcopy_fresh:
  assumes "deepcopy_ui_options s1 = (Returned c, s2, evs)" and "options_allocated s1"
  shows "c \<noteq> ui_options s1"
    and "io (options_heap s2 c) \<noteq> io (options_heap s1 (ui_options s1))"
    and "io (options_heap s2 c) \<noteq> c"
    and "io_heap s2 (io (options_heap s2 c)) = ui_options_io s1"
    and "ui_options s2 = ui_options s1"
    and "options_heap s2 (ui_options s1) = options_heap s1 (ui_options s1)"
    and "ui_options_io s2 = ui_options_io s1"
    and "next_addr s2 = Suc (Suc (next_addr s1))"
  using assms
  by (auto simp add: deepcopy_ui_options_def options_allocated_def ui_options_io_def Let_def)

text \<open>Once the loader has returned a morphology, the sketch routine is called exactly once.\<close>

lemma sketch_call_recorded:
  assumes "load_morphology env s = (Returned (Some m), s1)"
    and "deepcopy_ui_options s1 = (Returned c, s2, [])"
  shows "filter is_sketch_call (events_of (AnalyzeMorphology_execute env s)) =
           [Call_sketch_morphology_skeleton_guide (ui_morphology s1) c]"
  using assms
  by (auto simp add: AnalyzeMorphology_execute_def act_defs split: prod.splits result.splits)

lemma raisedI:
  "load_morphology env s = (Raised e, s') \<Longrightarrow> raised_by_collaborator env e"
  "sketch_morphology_skeleton_guide env m a s = (Raised e, s') \<Longrightarrow> raised_by_collaborator env e"
  "analyze_morphology env m s = (Raised e, s') \<Longrightarrow> raised_by_collaborator env e"
  "export_analysis_results env m p s = (Raised e, s') \<Longrightarrow> raised_by_collaborator env e"
  "path_exists env p s = (Raised e, s') \<Longrightarrow> raised_by_collaborator env e"
  "clean_and_create_directory env p s = (Raised e, s') \<Longrightarrow> raised_by_collaborator env e"
  "log env x s = (Raised e, s') \<Longrightarrow> raised_by_collaborator env e"
  unfolding raised_by_collaborator_def by (metis fst_conv)+

lemma analyze_outcome:
  "(case outcome_of (AnalyzeMorphology_execute env s) of
      Returned r \<Rightarrow> r = {FINISHED} | Raised e \<Rightarrow> raised_by_collaborator env e)"
  by (auto simp add: AnalyzeMorphology_execute_def act_defs deepcopy_ui_options_def Let_def
      split: prod.splits result.splits intro: raisedI)

lemma export_outcome:
  "(case outcome_of (ExportAnalysisResults_execute env s) of
      Returned r \<Rightarrow> r = {FINISHED} | Raised e \<Rightarrow> raised_by_collaborator env e)"
  by (auto simp add: ExportAnalysisResults_execute_def act_defs
      split: prod.splits result.splits intro: raisedI)

text \<open>
  The run of the export handler when both path checks pass and the collaborators before the
  export routine return: \<open>s1\<close> to \<open>s5\<close> are the sessions left by the successive calls, \<open>b\<close>
  is the answer of \<^verbatim>\<open>path_exists\<close> for the analysis directory and \<open>r\<close> the outcome of the
  export routine.
\<close>

lemma export_run:
  assumes "output_directory (ui_options_io s) \<noteq> None"
    and "log env (OutputDirectory s) s = (Returned (), s1)"
    and "path_exists env (Some (OutputDirectory s1)) s1 = (Returned True, s2)"
    and "path_exists env (analysis_directory (ui_options_io s2)) s2 = (Returned b, s3)"
    and "if b then s4 = s3
         else clean_and_create_directory env (analysis_directory (ui_options_io s3)) s3
                = (Returned (), s4)"
    and "export_analysis_results env (ui_morphology s4) (analysis_directory (ui_options_io s4)) s4
           = (r, s5)"
  shows "ExportAnalysisResults_execute env s =
           (case r of Returned u \<Rightarrow> Returned {FINISHED} | Raised e \<Rightarrow> Raised e,
            s5,
            [Call_log (OutputDirectory s),
             Call_path_exists (Some (OutputDirectory s1)),
             Call_path_exists (analysis_directory (ui_options_io s2))]
            @ (if b then []
               else [Call_clean_and_create_directory (analysis_directory (ui_options_io s3))])
            @ [Call_export_analysis_results (ui_morphology s4)
                 (analysis_directory (ui_options_io s4))])"
  using assms
  by (cases b; cases r) (auto simp add: ExportAnalysisResults_execute_def act_defs)

lemma leavesD: "leaves f g \<Longrightarrow> g s = (r, s') \<Longrightarrow> f s' = f s"
  unfolding leaves_def by (metis snd_conv)

text \<open>The export handler writes nothing itself: what its collaborators leave alone stays.\<close>

lemma export_leaves:
  assumes "export_collaborators_leave f env"
  shows "f (session_of (ExportAnalysisResults_execute env s)) = f s"
proof -
  have l: "\<And>x s r s'. log env x s = (r, s') \<Longrightarrow> f s' = f s"
    and p: "\<And>x s r s'. path_exists env x s = (r, s') \<Longrightarrow> f s' = f s"
    and c: "\<And>x s r s'. clean_and_create_directory env x s = (r, s') \<Longrightarrow> f s' = f s"
    and e: "\<And>m x s r s'. export_analysis_results env m x s = (r, s') \<Longrightarrow> f s' = f s"
    using assms unfolding export_collaborators_leave_def by (blast intro: leavesD)+
  show ?thesis
    by (auto simp add: ExportAnalysisResults_execute_def act_defs
        split: prod.splits result.splits dest!: l p c e)
qed

lemma flag_blindD:
  "flag_blind g \<Longrightarrow> g s = (r, s') \<Longrightarrow>
     g (s\<lparr>MorphologyAnalyzed := b\<rparr>) = (r, s'\<lparr>MorphologyAnalyzed := b\<rparr>)"
  unfolding flag_blind_def by (metis fst_conv snd_conv)

lemma ui_options_io_flag [simp]:
  "ui_options_io (s\<lparr>MorphologyAnalyzed := b\<rparr>) = ui_options_io s"
  by (simp add: ui_options_io_def)

text \<open>The export handler run with another value of the flag does the same.\<close>

lemma export_flag_blind:
  assumes "export_collaborators_flag_blind env"
  shows "ExportAnalysisResults_execute env (s\<lparr>MorphologyAnalyzed := b\<rparr>) =
           (outcome_of (ExportAnalysisResults_execute env s),
            (session_of (ExportAnalysisResults_execute env s))\<lparr>MorphologyAnalyzed := b\<rparr>,
            events_of (ExportAnalysisResults_execute env s))"
proof -
  have l: "\<And>x s r s'. log env x s = (r, s') \<Longrightarrow>
             log env x (s\<lparr>MorphologyAnalyzed := b\<rparr>) = (r, s'\<lparr>MorphologyAnalyzed := b\<rparr>)"
    and p: "\<And>x s r s'. path_exists env x s = (r, s') \<Longrightarrow>
             path_exists env x (s\<lparr>MorphologyAnalyzed := b\<rparr>) = (r, s'\<lparr>MorphologyAnalyzed := b\<rparr>)"
    and c: "\<And>x s r s'. clean_and_create_directory env x s = (r, s') \<Longrightarrow>
             clean_and_create_directory env x (s\<lparr>MorphologyAnalyzed := b\<rparr>)
               = (r, s'\<lparr>MorphologyAnalyzed := b\<rparr>)"
    and e: "\<And>m x s r s'. export_analysis_results env m x s = (r, s') \<Longrightarrow>
             export_analysis_results env m x (s\<lparr>MorphologyAnalyzed := b\<rparr>)
               = (r, s'\<lparr>MorphologyAnalyzed := b\<rparr>)"
    using assms unfolding export_collaborators_flag_blind_def by (blast intro: flag_blindD)+
  show ?thesis
  proof (cases "output_directory (ui_options_io s) = None")
    case True
    then show ?thesis by (simp add: ExportAnalysisResults_execute_def act_defs)
  next
    case out: False
    obtain r1 s1 where L: "log env (OutputDirectory s) s = (r1, s1)" by fastforce
    show ?thesis
    proof (cases r1)
      case (Raised x)
      then show ?thesis using out L l [OF L]
        by (simp add: ExportAnalysisResults_execute_def act_defs)
    next
      case R1: (Returned u1)
      obtain r2 s2 where P: "path_exists env (Some (OutputDirectory s1)) s1 = (r2, s2)"
        by fastforce
      show ?thesis
      proof (cases r2)
        case (Raised x)
        then show ?thesis using out L l [OF L] R1 P p [OF P]
          by (simp add: ExportAnalysisResults_execute_def act_defs)
      next
        case R2: (Returned b2)
        show ?thesis
        proof (cases b2)
          case False
          then show ?thesis using out L l [OF L] R1 P p [OF P] R2
            by (simp add: ExportAnalysisResults_execute_def act_defs)
        next
          case T2: True
          obtain r3 s3
            where P3: "path_exists env (analysis_directory (ui_options_io s2)) s2 = (r3, s3)"
            by fastforce
          show ?thesis
          proof (cases r3)
            case (Raised x)
            then show ?thesis using out L l [OF L] R1 P p [OF P] R2 T2 P3 p [OF P3]
              by (simp add: ExportAnalysisResults_execute_def act_defs)
          next
            case R3: (Returned b3)
            obtain r4 s4 where C: "(if b3 then (Returned (), s3) else
                 clean_and_create_directory env (analysis_directory (ui_options_io s3)) s3)
                 = (r4, s4)"
              by fastforce
            have C': "(if b3 then (Returned (), s3\<lparr>MorphologyAnalyzed := b\<rparr>) else
                 clean_and_create_directory env (analysis_directory (ui_options_io s3))
                   (s3\<lparr>MorphologyAnalyzed := b\<rparr>)) = (r4, s4\<lparr>MorphologyAnalyzed := b\<rparr>)"
              using C c by (auto split: if_splits)
            obtain r5 s5 where E: "export_analysis_results env (ui_morphology s4)
                 (analysis_directory (ui_options_io s4)) s4 = (r5, s5)"
              by fastforce
            show ?thesis
              using out L l [OF L] R1 P p [OF P] R2 T2 P3 p [OF P3] R3 C C' E e [OF E]
              by (cases b3; cases r4; cases r5)
                (auto simp add: ExportAnalysisResults_execute_def act_defs)
          qed
        qed
      qed
    qed
  qed
qed

text \<open>The example collaborators of the export handler leave the analysis state alone.\<close>

lemma example_flag_blind: "export_collaborators_flag_blind example_collaborators"
  by (simp add: export_collaborators_flag_blind_def flag_blind_def example_collaborators_def
      split: option.splits)

lemma example_leaves:
  "export_collaborators_leave MorphologyAnalyzed example_collaborators"
  "export_collaborators_leave ui_morphology example_collaborators"
  "export_collaborators_leave (\<lambda>s. (ui_options s, options_heap s, io_heap s)) example_collaborators"
  by (simp_all add: export_collaborators_leave_def leaves_def example_collaborators_def
      split: option.splits)

subsection \<open>The analyze action\<close>

text \<open>
  Claim C1. Whenever the morphology loader returns \<^verbatim>\<open>None\<close>, the analyze action reports
  exactly one message, the ERROR \<^verbatim>\<open>Please select a morphology file\<close>, calls neither the sketch
  routine nor the analysis routine, and returns \<^verbatim>\<open>{'FINISHED'}\<close>. It writes nothing: the
  session it leaves is the one the loader left, so the flag \<^verbatim>\<open>MorphologyAnalyzed\<close> has the
  value it had after the loader, which is the initial one when the loader does not touch it.
\<close>

theorem analyze_without_morphology:
  assumes "load_morphology env s = (Returned None, s1)"
  shows "outcome_of (AnalyzeMorphology_execute env s) = Returned {FINISHED}
       \<and> events_of (AnalyzeMorphology_execute env s) =
           [Call_load_morphology, Report {ERROR} ''Please select a morphology file'']
       \<and> reports_of (events_of (AnalyzeMorphology_execute env s)) =
           [({ERROR}, ''Please select a morphology file'')]
       \<and> filter is_sketch_call (events_of (AnalyzeMorphology_execute env s)) = []
       \<and> filter is_analyze_call (events_of (AnalyzeMorphology_execute env s)) = []
       \<and> session_of (AnalyzeMorphology_execute env s) = s1
       \<and> MorphologyAnalyzed (session_of (AnalyzeMorphology_execute env s)) = MorphologyAnalyzed s1
       \<and> (MorphologyAnalyzed s1 = MorphologyAnalyzed s \<longrightarrow>
            MorphologyAnalyzed (session_of (AnalyzeMorphology_execute env s))
              = MorphologyAnalyzed s)"
  using assms by (simp add: AnalyzeMorphology_execute_def act_defs)

theorem analyze_without_morphology_witness:
  "load_morphology (example_collaborators\<lparr>load_morphology := (\<lambda>s. (Returned None, s))\<rparr>)
      example_session = (Returned None, example_session)
   \<and> events_of (AnalyzeMorphology_execute
        (example_collaborators\<lparr>load_morphology := (\<lambda>s. (Returned None, s))\<rparr>) example_session)
      = [Call_load_morphology, Report {ERROR} ''Please select a morphology file'']
   \<and> MorphologyAnalyzed (session_of (AnalyzeMorphology_execute
        (example_collaborators\<lparr>load_morphology := (\<lambda>s. (Returned None, s))\<rparr>) example_session))
      = False"
proof -
  let ?env = "example_collaborators\<lparr>load_morphology := (\<lambda>s. (Returned None, s))\<rparr>"
  have h: "load_morphology ?env example_session = (Returned None, example_session)"
    by simp
  have f: "MorphologyAnalyzed example_session = False"
    by (simp add: example_session_def)
  show ?thesis
    using analyze_without_morphology [OF h] h f by simp
qed

text \<open>
  Claim C2. Whenever the loader returns a morphology (and the sketch and analysis routines
  return), the analyze action stores in \<^verbatim>\<open>MorphologyAnalyzed\<close> exactly the boolean \<open>b\<close> that
  the analysis routine returned. It reports the WARNING
  \<^verbatim>\<open>Corrupted morphology and cannot be analysed!\<close> if and only if \<open>b\<close> is false, and reports
  nothing at all when \<open>b\<close> is true.
\<close>

theorem analyze_with_morphology:
  assumes "load_morphology env s = (Returned (Some m), s1)"
    and "deepcopy_ui_options s1 = (Returned c, s2, [])"
    and "sketch_morphology_skeleton_guide env (ui_morphology s1) c s2 = (Returned (), s3)"
    and "analyze_morphology env (ui_morphology s3) s3 = (Returned b, s4)"
  shows "outcome_of (AnalyzeMorphology_execute env s) = Returned {FINISHED}
       \<and> session_of (AnalyzeMorphology_execute env s) = s4\<lparr>MorphologyAnalyzed := b\<rparr>
       \<and> MorphologyAnalyzed (session_of (AnalyzeMorphology_execute env s)) = b
       \<and> reports_of (events_of (AnalyzeMorphology_execute env s)) =
           (if b then [] else [({WARNING}, ''Corrupted morphology and cannot be analysed!'')])
       \<and> events_of (AnalyzeMorphology_execute env s) =
           [Call_load_morphology,
            Call_sketch_morphology_skeleton_guide (ui_morphology s1) c,
            Call_analyze_morphology (ui_morphology s3)]
           @ (if b then [] else [Report {WARNING} ''Corrupted morphology and cannot be analysed!''])"
  using assms by (simp add: AnalyzeMorphology_execute_def act_defs)

theorem analyze_with_morphology_witness:
  "MorphologyAnalyzed (session_of (AnalyzeMorphology_execute example_collaborators example_session))
     = True
   \<and> events_of (AnalyzeMorphology_execute example_collaborators example_session)
     = [Call_load_morphology, Call_sketch_morphology_skeleton_guide (Some 1) 3,
        Call_analyze_morphology (Some 1)]
   \<and> MorphologyAnalyzed (session_of (AnalyzeMorphology_execute
        (example_collaborators\<lparr>analyze_morphology := (\<lambda>m s. (Returned False, s))\<rparr>)
        example_session)) = False
   \<and> reports_of (events_of (AnalyzeMorphology_execute
        (example_collaborators\<lparr>analyze_morphology := (\<lambda>m s. (Returned False, s))\<rparr>)
        example_session)) = [({WARNING}, ''Corrupted morphology and cannot be analysed!'')]"
proof -
  let ?bad = "example_collaborators\<lparr>analyze_morphology := (\<lambda>m s. (Returned False, s))\<rparr>"
  let ?s1 = "example_session\<lparr>ui_morphology := Some 1\<rparr>"
  let ?s2 = "fst (snd (deepcopy_ui_options ?s1))"
  let ?s3 = "snd (sketch_morphology_skeleton_guide example_collaborators (Some 1) 3 ?s2)"
  have load: "load_morphology example_collaborators example_session = (Returned (Some 1), ?s1)"
    "load_morphology ?bad example_session = (Returned (Some 1), ?s1)"
    by (simp_all add: example_collaborators_def)
  have copy: "deepcopy_ui_options ?s1 = (Returned 3, ?s2, [])"
    by (simp add: deepcopy_ui_options_def example_session_def Let_def)
  have sketch: "sketch_morphology_skeleton_guide example_collaborators (ui_morphology ?s1) 3 ?s2
      = (Returned (), ?s3)"
    "sketch_morphology_skeleton_guide ?bad (ui_morphology ?s1) 3 ?s2 = (Returned (), ?s3)"
    by (simp_all add: example_collaborators_def)
  have m3: "ui_morphology ?s3 = Some 1"
    by (simp add: example_collaborators_def deepcopy_ui_options_def Let_def)
  have analyze:
    "analyze_morphology example_collaborators (ui_morphology ?s3) ?s3 = (Returned True, ?s3)"
    "analyze_morphology ?bad (ui_morphology ?s3) ?s3 = (Returned False, ?s3)"
    using m3 by (simp_all add: example_collaborators_def)
  show ?thesis
    using analyze_with_morphology [OF load(1) copy sketch(1) analyze(1)]
      analyze_with_morphology [OF load(2) copy sketch(2) analyze(2)] m3
    by simp
qed

text \<open>
  Claim C5. The options argument the analyze action passes to the sketch routine is a deep
  copy of the shared configuration: a new object \<open>c\<close> with a new \<^verbatim>\<open>io\<close> object, holding
  the same field values. Hence whatever the sketch routine writes through that argument,
  and whether it returns or raises, after the call the global \<^verbatim>\<open>ui_options\<close> names the same
  object, and that object and its \<^verbatim>\<open>io\<close> object are as they were before the call.
\<close>

theorem sketch_cannot_touch_ui_options:
  assumes load: "load_morphology env s = (Returned (Some m), s1)"
    and alloc: "options_allocated s1"
    and copy: "deepcopy_ui_options s1 = (Returned c, s2, [])"
    and sketch: "sketch_morphology_skeleton_guide env (ui_morphology s1) c s2 = (r, s3)"
    and frame: "writes_only_argument c s2 s3"
  shows "filter is_sketch_call (events_of (AnalyzeMorphology_execute env s)) =
           [Call_sketch_morphology_skeleton_guide (ui_morphology s1) c]
       \<and> c \<noteq> ui_options s1
       \<and> io (options_heap s2 c) \<noteq> io (options_heap s1 (ui_options s1))
       \<and> io_heap s2 (io (options_heap s2 c)) = ui_options_io s1
       \<and> ui_options s3 = ui_options s1
       \<and> options_heap s3 (ui_options s1) = options_heap s1 (ui_options s1)
       \<and> ui_options_io s3 = ui_options_io s1"
proof -
  note fresh = deepcopy_fresh [OF copy alloc]
  have lt: "ui_options s1 < next_addr s2" "io (options_heap s1 (ui_options s1)) < next_addr s2"
    using alloc fresh(8) by (simp_all add: options_allocated_def)
  have ref: "ui_options s3 = ui_options s1"
    using frame fresh(5) by (simp add: writes_only_argument_def)
  have obj: "options_heap s3 (ui_options s1) = options_heap s1 (ui_options s1)"
    using frame lt(1) fresh(1) fresh(6) by (simp add: writes_only_argument_def)
  have "io_heap s2 (io (options_heap s1 (ui_options s1))) = ui_options_io s1"
    using fresh(7) fresh(5) fresh(6) by (simp add: ui_options_io_def)
  moreover have "io_heap s3 (io (options_heap s1 (ui_options s1)))
      = io_heap s2 (io (options_heap s1 (ui_options s1)))"
    using frame lt(2) fresh(2) by (simp add: writes_only_argument_def)
  ultimately have io: "ui_options_io s3 = ui_options_io s1"
    using ref obj by (simp add: ui_options_io_def)
  show ?thesis
    using sketch_call_recorded [OF load copy] fresh(1,2,4) ref obj io by simp
qed

text \<open>
  In the example the sketch routine overwrites both path fields of its argument: the copy
  (its \<^verbatim>\<open>io\<close> object is at address 2) is changed and the shared configuration is not.
\<close>

theorem sketch_cannot_touch_ui_options_witness:
  "ui_options_io (snd (sketch_morphology_skeleton_guide example_collaborators (Some 1) 3
       (fst (snd (deepcopy_ui_options (example_session\<lparr>ui_morphology := Some 1\<rparr>))))))
     = \<lparr>output_directory = Some ''/out'', analysis_directory = Some ''/out/analysis''\<rparr>
   \<and> io_heap (snd (sketch_morphology_skeleton_guide example_collaborators (Some 1) 3
       (fst (snd (deepcopy_ui_options (example_session\<lparr>ui_morphology := Some 1\<rparr>)))))) 2
     = \<lparr>output_directory = None, analysis_directory = None\<rparr>
   \<and> filter is_sketch_call
        (events_of (AnalyzeMorphology_execute example_collaborators example_session))
     = [Call_sketch_morphology_skeleton_guide (Some 1) 3]"
proof -
  let ?s1 = "example_session\<lparr>ui_morphology := Some 1\<rparr>"
  let ?s2 = "fst (snd (deepcopy_ui_options ?s1))"
  let ?s3 = "snd (sketch_morphology_skeleton_guide example_collaborators (Some 1) 3 ?s2)"
  have load: "load_morphology example_collaborators example_session = (Returned (Some 1), ?s1)"
    by (simp add: example_collaborators_def)
  have alloc: "options_allocated ?s1"
    by (simp add: options_allocated_def example_session_def)
  have copy: "deepcopy_ui_options ?s1 = (Returned 3, ?s2, [])"
    by (simp add: deepcopy_ui_options_def example_session_def Let_def)
  have sketch: "sketch_morphology_skeleton_guide example_collaborators (ui_morphology ?s1) 3 ?s2
      = (Returned (), ?s3)"
    by (simp add: example_defs)
  have frame: "writes_only_argument 3 ?s2 ?s3"
    by (simp add: writes_only_argument_def example_defs deepcopy_ui_options_def Let_def)
  have v: "ui_options_io ?s1 =
      \<lparr>output_directory = Some ''/out'', analysis_directory = Some ''/out/analysis''\<rparr>"
    "ui_morphology ?s1 = Some 1"
    by (simp_all add: example_session_def ui_options_io_def)
  have mutated: "io_heap ?s3 2 = \<lparr>output_directory = None, analysis_directory = None\<rparr>"
    by (simp add: example_defs deepcopy_ui_options_def Let_def)
  show ?thesis
    using sketch_cannot_touch_ui_options [OF load alloc copy sketch frame] v mutated
    by simp
qed

subsection \<open>The export action\<close>

text \<open>
  Claim C3. The export action ends early, with exactly one ERROR report, no call of
  \<^verbatim>\<open>clean_and_create_directory\<close> and no call of the export routine, in two cases. When
  \<^verbatim>\<open>ui_options.io.output_directory\<close> is \<^verbatim>\<open>None\<close> it reports \<^verbatim>\<open>PATH_NOT_SET\<close>; this test comes
  first, no path is looked up and the session is untouched. When it is set and
  \<^verbatim>\<open>path_exists\<close> answers no for the scene's \<^verbatim>\<open>OutputDirectory\<close> it reports
  \<^verbatim>\<open>INVALID_OUTPUT_PATH\<close>. Both times it returns \<^verbatim>\<open>{'FINISHED'}\<close>.
\<close>

theorem export_rejects_bad_paths:
  "(output_directory (ui_options_io s) = None \<longrightarrow>
      ExportAnalysisResults_execute env s =
        (Returned {FINISHED}, s, [Report {ERROR} (PATH_NOT_SET env)]))
   \<and> (output_directory (ui_options_io s) \<noteq> None
        \<and> log env (OutputDirectory s) s = (Returned (), s1)
        \<and> path_exists env (Some (OutputDirectory s1)) s1 = (Returned False, s2) \<longrightarrow>
      ExportAnalysisResults_execute env s =
        (Returned {FINISHED}, s2,
         [Call_log (OutputDirectory s), Call_path_exists (Some (OutputDirectory s1)),
          Report {ERROR} (INVALID_OUTPUT_PATH env)]))
   \<and> (output_directory (ui_options_io s) = None
        \<or> (log env (OutputDirectory s) s = (Returned (), s1)
            \<and> path_exists env (Some (OutputDirectory s1)) s1 = (Returned False, s2)) \<longrightarrow>
      length (reports_of (events_of (ExportAnalysisResults_execute env s))) = 1
      \<and> filter is_create_call (events_of (ExportAnalysisResults_execute env s)) = []
      \<and> filter is_export_call (events_of (ExportAnalysisResults_execute env s)) = [])"
  by (auto simp add: ExportAnalysisResults_execute_def act_defs)

theorem export_rejects_bad_paths_witness:
  "ExportAnalysisResults_execute example_collaborators unset_session =
     (Returned {FINISHED}, unset_session, [Report {ERROR} ''Output directory is not set''])
   \<and> ExportAnalysisResults_execute example_collaborators
        (example_session\<lparr>OutputDirectory := ''/missing''\<rparr>) =
     (Returned {FINISHED}, example_session\<lparr>OutputDirectory := ''/missing''\<rparr>,
      [Call_log ''/missing'', Call_path_exists (Some ''/missing''),
       Report {ERROR} ''Output directory does not exist''])"
proof -
  let ?s = "example_session\<lparr>OutputDirectory := ''/missing''\<rparr>"
  have a: "output_directory (ui_options_io unset_session) = None"
    by (simp add: unset_session_def example_session_def ui_options_io_def)
  have b: "output_directory (ui_options_io ?s) \<noteq> None
        \<and> log example_collaborators (OutputDirectory ?s) ?s = (Returned (), ?s)
        \<and> path_exists example_collaborators (Some (OutputDirectory ?s)) ?s = (Returned False, ?s)"
    by (simp add: example_defs ui_options_io_def)
  have n: "PATH_NOT_SET example_collaborators = ''Output directory is not set''"
    "INVALID_OUTPUT_PATH example_collaborators = ''Output directory does not exist''"
    "OutputDirectory ?s = ''/missing''"
    by (simp_all add: example_defs)
  show ?thesis
    using export_rejects_bad_paths [of unset_session example_collaborators]
      export_rejects_bad_paths [of ?s example_collaborators ?s ?s] a b n
    by simp
qed

text \<open>
  Claim C4. When \<^verbatim>\<open>output_directory\<close> is set and \<^verbatim>\<open>OutputDirectory\<close> exists, the export action
  asks whether the analysis directory exists, calls \<^verbatim>\<open>clean_and_create_directory\<close> on it if
  and only if the answer \<open>b\<close> is no, and in either case then calls the export routine with
  the current \<^verbatim>\<open>ui_morphology\<close> and the analysis directory; the creation, when there is one,
  comes before the export call.
\<close>

theorem export_creates_missing_directory:
  assumes "output_directory (ui_options_io s) \<noteq> None"
    and "log env (OutputDirectory s) s = (Returned (), s1)"
    and "path_exists env (Some (OutputDirectory s1)) s1 = (Returned True, s2)"
    and "path_exists env (analysis_directory (ui_options_io s2)) s2 = (Returned b, s3)"
    and "if b then s4 = s3
         else clean_and_create_directory env (analysis_directory (ui_options_io s3)) s3
                = (Returned (), s4)"
    and "export_analysis_results env (ui_morphology s4) (analysis_directory (ui_options_io s4)) s4
           = (r, s5)"
  shows "events_of (ExportAnalysisResults_execute env s) =
           [Call_log (OutputDirectory s),
            Call_path_exists (Some (OutputDirectory s1)),
            Call_path_exists (analysis_directory (ui_options_io s2))]
           @ (if b then []
              else [Call_clean_and_create_directory (analysis_directory (ui_options_io s3))])
           @ [Call_export_analysis_results (ui_morphology s4)
                (analysis_directory (ui_options_io s4))]
       \<and> session_of (ExportAnalysisResults_execute env s) = s5
       \<and> outcome_of (ExportAnalysisResults_execute env s) =
           (case r of Returned u \<Rightarrow> Returned {FINISHED} | Raised e \<Rightarrow> Raised e)"
  using export_run [OF assms] by (simp add: act_defs)

theorem export_creates_missing_directory_witness:
  "events_of (ExportAnalysisResults_execute example_collaborators example_session) =
     [Call_log ''/out'', Call_path_exists (Some ''/out''),
      Call_path_exists (Some ''/out/analysis''),
      Call_clean_and_create_directory (Some ''/out/analysis''),
      Call_export_analysis_results None (Some ''/out/analysis'')]
   \<and> events_of (ExportAnalysisResults_execute example_collaborators
        (example_session\<lparr>outside := {''/out'', ''/out/analysis''}\<rparr>)) =
     [Call_log ''/out'', Call_path_exists (Some ''/out''),
      Call_path_exists (Some ''/out/analysis''),
      Call_export_analysis_results None (Some ''/out/analysis'')]"
proof -
  let ?s = "example_session"
  let ?s4 = "example_session\<lparr>outside := {''/out/analysis'', ''/out''}\<rparr>"
  let ?t = "example_session\<lparr>outside := {''/out'', ''/out/analysis''}\<rparr>"
  have h1: "output_directory (ui_options_io ?s) \<noteq> None"
    "output_directory (ui_options_io ?t) \<noteq> None"
    by (simp_all add: example_defs ui_options_io_def)
  have h2: "log example_collaborators (OutputDirectory ?s) ?s = (Returned (), ?s)"
    "log example_collaborators (OutputDirectory ?t) ?t = (Returned (), ?t)"
    by (simp_all add: example_defs)
  have h3: "path_exists example_collaborators (Some (OutputDirectory ?s)) ?s = (Returned True, ?s)"
    "path_exists example_collaborators (Some (OutputDirectory ?t)) ?t = (Returned True, ?t)"
    by (simp_all add: example_defs)
  have h4: "path_exists example_collaborators (analysis_directory (ui_options_io ?s)) ?s
      = (Returned False, ?s)"
    "path_exists example_collaborators (analysis_directory (ui_options_io ?t)) ?t
      = (Returned True, ?t)"
    by (simp_all add: example_defs ui_options_io_def)
  have h5: "if False then ?s4 = ?s
      else clean_and_create_directory example_collaborators
             (analysis_directory (ui_options_io ?s)) ?s = (Returned (), ?s4)"
    "if True then ?t = ?t
      else clean_and_create_directory example_collaborators
             (analysis_directory (ui_options_io ?t)) ?t = (Returned (), ?t)"
    by (simp_all add: example_defs ui_options_io_def)
  have h6: "export_analysis_results example_collaborators (ui_morphology ?s4)
      (analysis_directory (ui_options_io ?s4)) ?s4 = (Returned (), ?s4)"
    "export_analysis_results example_collaborators (ui_morphology ?t)
      (analysis_directory (ui_options_io ?t)) ?t = (Returned (), ?t)"
    by (simp_all add: example_defs)
  have v: "OutputDirectory ?s = ''/out''" "OutputDirectory ?t = ''/out''"
    "analysis_directory (ui_options_io ?s) = Some ''/out/analysis''"
    "analysis_directory (ui_options_io ?t) = Some ''/out/analysis''"
    "analysis_directory (ui_options_io ?s4) = Some ''/out/analysis''"
    "ui_morphology ?s4 = None" "ui_morphology ?t = None"
    by (simp_all add: example_defs ui_options_io_def)
  show ?thesis
    using export_creates_missing_directory [OF h1(1) h2(1) h3(1) h4(1) h5(1) h6(1)]
      export_creates_missing_directory [OF h1(2) h2(2) h3(2) h4(2) h5(2) h6(2)] v
    by simp
qed

text \<open>
  Claim C8, as stated, says that the export action never reads \<^verbatim>\<open>MorphologyAnalyzed\<close>,
  \<^verbatim>\<open>ui_morphology\<close> or \<^verbatim>\<open>ui_options\<close>. It does read the last two: its first test is on
  \<^verbatim>\<open>ui_options.io.output_directory\<close>, and \<^verbatim>\<open>ui_morphology\<close> is the argument of the export
  call. Two sessions that differ only in the \<^verbatim>\<open>io\<close> object of \<^verbatim>\<open>ui_options\<close>, or only in
  \<^verbatim>\<open>ui_morphology\<close>, make the action behave differently.
\<close>

theorem export_reads_configuration_counterexample:
  "events_of (ExportAnalysisResults_execute example_collaborators
      (example_session\<lparr>io_heap := (\<lambda>a. \<lparr>output_directory = None,
          analysis_directory = Some ''/out/analysis''\<rparr>)\<rparr>))
     \<noteq> events_of (ExportAnalysisResults_execute example_collaborators example_session)
   \<and> events_of (ExportAnalysisResults_execute example_collaborators
      (example_session\<lparr>ui_morphology := Some 1\<rparr>))
     \<noteq> events_of (ExportAnalysisResults_execute example_collaborators example_session)"
  by (simp add: ExportAnalysisResults_execute_def act_defs example_defs ui_options_io_def)

text \<open>
  Claim C8, amended. The export action never reads \<^verbatim>\<open>MorphologyAnalyzed\<close>: with collaborators
  that ignore the flag, changing the flag changes nothing else in what the action returns,
  leaves and does. It never modifies \<^verbatim>\<open>MorphologyAnalyzed\<close>, \<^verbatim>\<open>ui_morphology\<close> or \<^verbatim>\<open>ui_options\<close>
  (the reference and the objects): each stays as it was whenever the collaborators leave it
  alone. And when its two path checks pass it calls the export routine with whatever
  \<^verbatim>\<open>ui_morphology\<close> is at that moment, \<^verbatim>\<open>None\<close> included, whatever the flag is: nothing requires
  an analysis to have succeeded.
\<close>

theorem export_ignores_analysis_state:
  "(export_collaborators_flag_blind env \<longrightarrow>
      ExportAnalysisResults_execute env (s\<lparr>MorphologyAnalyzed := flag\<rparr>) =
        (outcome_of (ExportAnalysisResults_execute env s),
         (session_of (ExportAnalysisResults_execute env s))\<lparr>MorphologyAnalyzed := flag\<rparr>,
         events_of (ExportAnalysisResults_execute env s)))
   \<and> (export_collaborators_leave MorphologyAnalyzed env \<longrightarrow>
        MorphologyAnalyzed (session_of (ExportAnalysisResults_execute env s)) = MorphologyAnalyzed s)
   \<and> (export_collaborators_leave ui_morphology env \<longrightarrow>
        ui_morphology (session_of (ExportAnalysisResults_execute env s)) = ui_morphology s)
   \<and> (export_collaborators_leave (\<lambda>s. (ui_options s, options_heap s, io_heap s)) env \<longrightarrow>
        ui_options (session_of (ExportAnalysisResults_execute env s)) = ui_options s
        \<and> options_heap (session_of (ExportAnalysisResults_execute env s)) = options_heap s
        \<and> io_heap (session_of (ExportAnalysisResults_execute env s)) = io_heap s)
   \<and> (output_directory (ui_options_io s) \<noteq> None
        \<and> log env (OutputDirectory s) s = (Returned (), s1)
        \<and> path_exists env (Some (OutputDirectory s1)) s1 = (Returned True, s2)
        \<and> path_exists env (analysis_directory (ui_options_io s2)) s2 = (Returned b, s3)
        \<and> (if b then s4 = s3
            else clean_and_create_directory env (analysis_directory (ui_options_io s3)) s3
                   = (Returned (), s4)) \<longrightarrow>
        last (events_of (ExportAnalysisResults_execute env s)) =
          Call_export_analysis_results (ui_morphology s4) (analysis_directory (ui_options_io s4)))"
proof (intro conjI impI)
  assume "export_collaborators_flag_blind env"
  then show "ExportAnalysisResults_execute env (s\<lparr>MorphologyAnalyzed := flag\<rparr>) =
        (outcome_of (ExportAnalysisResults_execute env s),
         (session_of (ExportAnalysisResults_execute env s))\<lparr>MorphologyAnalyzed := flag\<rparr>,
         events_of (ExportAnalysisResults_execute env s))"
    by (rule export_flag_blind)
next
  assume "export_collaborators_leave MorphologyAnalyzed env"
  then show "MorphologyAnalyzed (session_of (ExportAnalysisResults_execute env s))
      = MorphologyAnalyzed s"
    by (rule export_leaves)
next
  assume "export_collaborators_leave ui_morphology env"
  then show "ui_morphology (session_of (ExportAnalysisResults_execute env s)) = ui_morphology s"
    by (rule export_leaves)
next
  assume a: "export_collaborators_leave (\<lambda>s. (ui_options s, options_heap s, io_heap s)) env"
  show "ui_options (session_of (ExportAnalysisResults_execute env s)) = ui_options s"
    using export_leaves [OF a, of s] by simp
  show "options_heap (session_of (ExportAnalysisResults_execute env s)) = options_heap s"
    using export_leaves [OF a, of s] by simp
  show "io_heap (session_of (ExportAnalysisResults_execute env s)) = io_heap s"
    using export_leaves [OF a, of s] by simp
next
  assume a: "output_directory (ui_options_io s) \<noteq> None
        \<and> log env (OutputDirectory s) s = (Returned (), s1)
        \<and> path_exists env (Some (OutputDirectory s1)) s1 = (Returned True, s2)
        \<and> path_exists env (analysis_directory (ui_options_io s2)) s2 = (Returned b, s3)
        \<and> (if b then s4 = s3
            else clean_and_create_directory env (analysis_directory (ui_options_io s3)) s3
                   = (Returned (), s4))"
  obtain r s5 where e: "export_analysis_results env (ui_morphology s4)
      (analysis_directory (ui_options_io s4)) s4 = (r, s5)"
    by fastforce
  from a have "ExportAnalysisResults_execute env s =
           (case r of Returned u \<Rightarrow> Returned {FINISHED} | Raised e \<Rightarrow> Raised e,
            s5,
            [Call_log (OutputDirectory s),
             Call_path_exists (Some (OutputDirectory s1)),
             Call_path_exists (analysis_directory (ui_options_io s2))]
            @ (if b then []
               else [Call_clean_and_create_directory (analysis_directory (ui_options_io s3))])
            @ [Call_export_analysis_results (ui_morphology s4)
                 (analysis_directory (ui_options_io s4))])"
    by (intro export_run [OF _ _ _ _ _ e]) simp_all
  then show "last (events_of (ExportAnalysisResults_execute env s)) =
          Call_export_analysis_results (ui_morphology s4) (analysis_directory (ui_options_io s4))"
    by (simp add: events_of_def)
qed

text \<open>
  In the example session nothing has been analysed and no morphology is loaded; the export
  routine is called all the same, with \<^verbatim>\<open>None\<close>.
\<close>

theorem export_ignores_analysis_state_witness:
  "MorphologyAnalyzed example_session = False \<and> ui_morphology example_session = None
   \<and> events_of (ExportAnalysisResults_execute example_collaborators
        (example_session\<lparr>MorphologyAnalyzed := True\<rparr>))
     = events_of (ExportAnalysisResults_execute example_collaborators example_session)
   \<and> MorphologyAnalyzed (session_of (ExportAnalysisResults_execute example_collaborators
        example_session)) = False
   \<and> ui_morphology (session_of (ExportAnalysisResults_execute example_collaborators
        example_session)) = None
   \<and> io_heap (session_of (ExportAnalysisResults_execute example_collaborators example_session))
     = io_heap example_session
   \<and> last (events_of (ExportAnalysisResults_execute example_collaborators example_session))
     = Call_export_analysis_results None (Some ''/out/analysis'')"
proof -
  let ?s = "example_session"
  let ?s4 = "example_session\<lparr>outside := {''/out/analysis'', ''/out''}\<rparr>"
  have pre: "output_directory (ui_options_io ?s) \<noteq> None
      \<and> log example_collaborators (OutputDirectory ?s) ?s = (Returned (), ?s)
      \<and> path_exists example_collaborators (Some (OutputDirectory ?s)) ?s = (Returned True, ?s)
      \<and> path_exists example_collaborators (analysis_directory (ui_options_io ?s)) ?s
          = (Returned False, ?s)
      \<and> (if False then ?s4 = ?s
          else clean_and_create_directory example_collaborators
                 (analysis_directory (ui_options_io ?s)) ?s = (Returned (), ?s4))"
    by (simp add: example_defs ui_options_io_def)
  have v: "MorphologyAnalyzed ?s = False" "ui_morphology ?s = None" "ui_morphology ?s4 = None"
    "analysis_directory (ui_options_io ?s4) = Some ''/out/analysis''"
    by (simp_all add: example_defs ui_options_io_def)
  note t = export_ignores_analysis_state
    [where env = example_collaborators and s = "?s" and flag = True and ?s1.0 = "?s"
       and ?s2.0 = "?s" and b = False and ?s3.0 = "?s" and ?s4.0 = "?s4"]
  have e: "events_of (ExportAnalysisResults_execute example_collaborators
        (?s\<lparr>MorphologyAnalyzed := True\<rparr>))
     = events_of (ExportAnalysisResults_execute example_collaborators ?s)"
    using t example_flag_blind by (simp add: events_of_def)
  show ?thesis
    using t example_leaves pre v e by simp
qed

text \<open>
  Claim C10. The path the export action validates is the scene's \<^verbatim>\<open>OutputDirectory\<close>; the path
  it creates and exports into is \<^verbatim>\<open>ui_options.io.analysis_directory\<close>, another location of
  the state. Where the two differ, the validation having passed, the analysis directory
  may exist or not (\<open>b\<close> is either), and the creation, when \<open>b\<close> is false, and the export go
  to the analysis directory: no creation and no export is made on the validated path.
\<close>

theorem export_target_is_not_the_validated_path:
  assumes "output_directory (ui_options_io s) \<noteq> None"
    and "log env (OutputDirectory s) s = (Returned (), s1)"
    and "path_exists env (Some (OutputDirectory s1)) s1 = (Returned True, s2)"
    and "path_exists env (analysis_directory (ui_options_io s2)) s2 = (Returned b, s3)"
    and "if b then s4 = s3
         else clean_and_create_directory env (analysis_directory (ui_options_io s3)) s3
                = (Returned (), s4)"
    and "analysis_directory (ui_options_io s3) \<noteq> Some (OutputDirectory s1)"
    and "analysis_directory (ui_options_io s4) \<noteq> Some (OutputDirectory s1)"
  shows "filter is_create_call (events_of (ExportAnalysisResults_execute env s)) =
           (if b then []
            else [Call_clean_and_create_directory (analysis_directory (ui_options_io s3))])
       \<and> filter is_export_call (events_of (ExportAnalysisResults_execute env s)) =
           [Call_export_analysis_results (ui_morphology s4)
              (analysis_directory (ui_options_io s4))]
       \<and> Call_path_exists (Some (OutputDirectory s1))
           \<in> set (events_of (ExportAnalysisResults_execute env s))
       \<and> Call_clean_and_create_directory (Some (OutputDirectory s1))
           \<notin> set (events_of (ExportAnalysisResults_execute env s))
       \<and> (\<forall>m. Call_export_analysis_results m (Some (OutputDirectory s1))
           \<notin> set (events_of (ExportAnalysisResults_execute env s)))"
proof -
  obtain r s5 where e: "export_analysis_results env (ui_morphology s4)
      (analysis_directory (ui_options_io s4)) s4 = (r, s5)"
    by fastforce
  show ?thesis
    using export_run [OF assms(1-5) e] assms(6,7)
    by (auto simp add: events_of_def)
qed

text \<open>
  In the example \<^verbatim>\<open>/out\<close> is validated and exists, \<^verbatim>\<open>/out/analysis\<close> does not exist, and it is
  \<^verbatim>\<open>/out/analysis\<close> that is created and exported into; with \<^verbatim>\<open>/out/analysis\<close> present the
  validation passes just the same and nothing is created.
\<close>

theorem export_target_is_not_the_validated_path_witness:
  "filter is_create_call
      (events_of (ExportAnalysisResults_execute example_collaborators example_session))
     = [Call_clean_and_create_directory (Some ''/out/analysis'')]
   \<and> filter is_export_call
      (events_of (ExportAnalysisResults_execute example_collaborators example_session))
     = [Call_export_analysis_results None (Some ''/out/analysis'')]
   \<and> Call_path_exists (Some ''/out'')
       \<in> set (events_of (ExportAnalysisResults_execute example_collaborators example_session))
   \<and> Call_clean_and_create_directory (Some ''/out'')
       \<notin> set (events_of (ExportAnalysisResults_execute example_collaborators example_session))
   \<and> filter is_create_call
      (events_of (ExportAnalysisResults_execute example_collaborators
         (example_session\<lparr>outside := {''/out'', ''/out/analysis''}\<rparr>)))
     = []"
proof -
  let ?s = "example_session"
  let ?s4 = "example_session\<lparr>outside := {''/out/analysis'', ''/out''}\<rparr>"
  let ?t = "example_session\<lparr>outside := {''/out'', ''/out/analysis''}\<rparr>"
  have h1: "output_directory (ui_options_io ?s) \<noteq> None"
    "output_directory (ui_options_io ?t) \<noteq> None"
    by (simp_all add: example_defs ui_options_io_def)
  have h2: "log example_collaborators (OutputDirectory ?s) ?s = (Returned (), ?s)"
    "log example_collaborators (OutputDirectory ?t) ?t = (Returned (), ?t)"
    by (simp_all add: example_defs)
  have h3: "path_exists example_collaborators (Some (OutputDirectory ?s)) ?s = (Returned True, ?s)"
    "path_exists example_collaborators (Some (OutputDirectory ?t)) ?t = (Returned True, ?t)"
    by (simp_all add: example_defs)
  have h4: "path_exists example_collaborators (analysis_directory (ui_options_io ?s)) ?s
      = (Returned False, ?s)"
    "path_exists example_collaborators (analysis_directory (ui_options_io ?t)) ?t
      = (Returned True, ?t)"
    by (simp_all add: example_defs ui_options_io_def)
  have h5: "if False then ?s4 = ?s
      else clean_and_create_directory example_collaborators
             (analysis_directory (ui_options_io ?s)) ?s = (Returned (), ?s4)"
    "if True then ?t = ?t
      else clean_and_create_directory example_collaborators
             (analysis_directory (ui_options_io ?t)) ?t = (Returned (), ?t)"
    by (simp_all add: example_defs ui_options_io_def)
  have h6: "analysis_directory (ui_options_io ?s) \<noteq> Some (OutputDirectory ?s)"
    "analysis_directory (ui_options_io ?s4) \<noteq> Some (OutputDirectory ?s)"
    by (simp_all add: example_defs ui_options_io_def)
  have h7: "analysis_directory (ui_options_io ?t) \<noteq> Some (OutputDirectory ?t)"
    by (simp add: example_defs ui_options_io_def)
  have v: "OutputDirectory ?s = ''/out''"
    "analysis_directory (ui_options_io ?s) = Some ''/out/analysis''"
    "analysis_directory (ui_options_io ?s4) = Some ''/out/analysis''"
    "ui_morphology ?s4 = None"
    by (simp_all add: example_defs ui_options_io_def)
  show ?thesis
    using export_target_is_not_the_validated_path [OF h1(1) h2(1) h3(1) h4(1) h5(1) h6]
      export_target_is_not_the_validated_path [OF h1(2) h2(2) h3(2) h4(2) h5(2) h7 h7] v
    by simp
qed

subsection \<open>Both handlers\<close>

text \<open>
  Claim C6. Whatever the session and whatever the collaborators return (the loader \<^verbatim>\<open>None\<close> or
  a morphology, the analysis true or false, the path checks passing or not), each of the two
  handlers returns \<^verbatim>\<open>{'FINISHED'}\<close>. Neither raises an exception of its own: a handler ends
  with an exception only when a collaborator raised it, and with collaborators that do not
  raise both handlers return \<^verbatim>\<open>{'FINISHED'}\<close>.
\<close>

theorem handlers_always_finish:
  "(case outcome_of (AnalyzeMorphology_execute env s) of
      Returned r \<Rightarrow> r = {FINISHED} | Raised e \<Rightarrow> raised_by_collaborator env e)
   \<and> (case outcome_of (ExportAnalysisResults_execute env s) of
      Returned r \<Rightarrow> r = {FINISHED} | Raised e \<Rightarrow> raised_by_collaborator env e)
   \<and> ((\<forall>e. \<not> raised_by_collaborator env e) \<longrightarrow>
        outcome_of (AnalyzeMorphology_execute env s) = Returned {FINISHED}
        \<and> outcome_of (ExportAnalysisResults_execute env s) = Returned {FINISHED})"
  using analyze_outcome [of env s] export_outcome [of env s]
  by (auto split: result.splits)

theorem handlers_always_finish_witness:
  "outcome_of (AnalyzeMorphology_execute example_collaborators example_session)
     = Returned {FINISHED}
   \<and> outcome_of (ExportAnalysisResults_execute example_collaborators example_session)
     = Returned {FINISHED}"
proof -
  have "\<forall>e. \<not> raised_by_collaborator example_collaborators e"
    by (simp add: raised_by_collaborator_def example_collaborators_def)
  then show ?thesis
    using handlers_always_finish [of example_collaborators example_session] by blast
qed

subsection \<open>The panel\<close>




text \<open>
  Claim C9. In every session where \<^verbatim>\<open>MorphologyAnalyzed\<close> is set and \<^verbatim>\<open>ui_morphology\<close> is
  \<^verbatim>\<open>None\<close>, the draw routine still calls the renderer of the analysis groups, and passes it
  \<^verbatim>\<open>None\<close> as the morphology: the test of the flag comes first, and the test for \<^verbatim>\<open>None\<close>
  only disables the layout afterwards, once the renderer has returned and the export button
  has been added.
\<close>

theorem draw_calls_renderer_with_null_morphology:
  assumes "MorphologyAnalyzed s" and "ui_morphology s = None"
  shows "drawn_events (AnalysisPanel_draw env layout0 s) = [Call_add_analysis_groups_to_panel None]
       \<and> (\<forall>layout2 s2.
            add_analysis_groups_to_panel env None
              (add_item (Column True [Operator ''analyze.morphology'' ''MESH_DATA'']) layout0) s
              = (Returned (), layout2, s2) \<and> ui_morphology s2 = None \<longrightarrow>
            drawn_layout (AnalysisPanel_draw env layout0 s) =
              (add_item (Row [Operator ''export.analysis_results'' ''MESH_DATA'']) layout2)
                \<lparr>enabled := False\<rparr>)"
  using assms by (auto simp add: draw_defs split: prod.splits result.splits)

theorem draw_calls_renderer_with_null_morphology_witness:
  "MorphologyAnalyzed (example_session\<lparr>MorphologyAnalyzed := True\<rparr>)
   \<and> ui_morphology (example_session\<lparr>MorphologyAnalyzed := True\<rparr>) = None
   \<and> drawn_events (AnalysisPanel_draw example_collaborators empty_layout
        (example_session\<lparr>MorphologyAnalyzed := True\<rparr>))
     = [Call_add_analysis_groups_to_panel None]
   \<and> drawn_layout (AnalysisPanel_draw example_collaborators empty_layout
        (example_session\<lparr>MorphologyAnalyzed := True\<rparr>))
     = \<lparr>items = [Column True [Operator ''analyze.morphology'' ''MESH_DATA''],
                 Widget ''Morphology'',
                 Row [Operator ''export.analysis_results'' ''MESH_DATA'']],
        enabled = False\<rparr>"
proof -
  let ?a = "example_session\<lparr>MorphologyAnalyzed := True\<rparr>"
  let ?l1 = "add_item (Column True [Operator ''analyze.morphology'' ''MESH_DATA'']) empty_layout"
  let ?l2 = "add_item (Widget ''Morphology'') ?l1"
  have h: "MorphologyAnalyzed ?a" "ui_morphology ?a = None"
    by (simp_all add: example_session_def)
  have r: "add_analysis_groups_to_panel example_collaborators None ?l1 ?a = (Returned (), ?l2, ?a)"
    by (simp add: example_collaborators_def)
  have l: "(add_item (Row [Operator ''export.analysis_results'' ''MESH_DATA'']) ?l2)
      \<lparr>enabled := False\<rparr> =
      \<lparr>items = [Column True [Operator ''analyze.morphology'' ''MESH_DATA''],
                 Widget ''Morphology'',
                 Row [Operator ''export.analysis_results'' ''MESH_DATA'']],
        enabled = False\<rparr>"
    by (simp add: add_item_def empty_layout_def)
  from draw_calls_renderer_with_null_morphology [OF h, of example_collaborators empty_layout]
  have "drawn_events (AnalysisPanel_draw example_collaborators empty_layout ?a)
          = [Call_add_analysis_groups_to_panel None]"
    and "drawn_layout (AnalysisPanel_draw example_collaborators empty_layout ?a) =
          (add_item (Row [Operator ''export.analysis_results'' ''MESH_DATA'']) ?l2)
            \<lparr>enabled := False\<rparr>"
    using r h(2) by blast+
  then show ?thesis using h l by simp
qed

end
